theory Spec2Isabelle
  imports Complex_Main
begin

section \<open>Data model of the event-service executor\<close>

text \<open>
  The theory embeds \<^verbatim>\<open>pilot/eventservice/workexecutor/plugins/raythenaexecutor.py\<close>
  (class \<^verbatim>\<open>GenericExecutor\<close>).  An outcome message is a Python dict with string keys;
  the values the worker's parser produces are strings.  A subscript \<^verbatim>\<open>msg['k']\<close> on a
  missing key raises \<^verbatim>\<open>KeyError\<close>, which the model returns as a value.
\<close>

type_synonym msg = "string \<rightharpoonup> string"

datatype exn =
    KeyError string
  | UnboundLocalError string
  | CollaboratorError string

text \<open>
  \<^verbatim>\<open>json.dumps\<close> is applied to lists and dicts of strings and numbers; the model keeps
  the structured value instead of its text.
\<close>

datatype json =
    JStr string
  | JNum int
  | JList "json list"
  | JObj "(string \<times> json) list"

record event_range_message =
  version :: int
  eventRanges :: json

datatype level = INFO | ERROR

datatype logarg = S string | M msg | I int | E exn | R "int option"

text \<open>
  Every call the executor makes to a collaborator or to the operating system is recorded,
  in order, in the \<open>trace\<close>.  \<open>OsRemove\<close> stands for \<^verbatim>\<open>os.remove(path)\<close>.
\<close>

datatype event =
    Log level string "logarg list"
  | UpdateEvents event_range_message
  | NewESProcess string
  | SetGetEventRangesHook
  | SetHandleOutMessageHook
  | ProcStart
  | ProcStop
  | StopCommunicator
  | OsRemove string

text \<open>
  Modelled from the spec: the worker process \<^verbatim>\<open>ESProcess\<close>
  (\<^verbatim>\<open>pilot/eventservice/esprocess/esprocess.py\<close>) is not part of the sources at hand.
  Section 4.1 of the specification gives it a non-blocking liveness probe, a non-blocking
  poll for the exit status (nothing while still running), a non-blocking stop request and a
  pid.  A process that has exited stays exited, so the answers of successive liveness
  probes are \<open>True\<close> for \<open>n\<close> probes and \<open>False\<close> from then on (\<open>alive_for = Some n\<close>), or
  \<open>True\<close> for ever (\<open>alive_for = None\<close>).
\<close>

record esprocess =
  pid :: int
  alive_for :: "nat option"
  exit_status :: int

text \<open>
  The collaborators of the executor whose code is not in the sources at hand
  (\<^verbatim>\<open>BaseExecutor\<close>, the communicator behind \<^verbatim>\<open>update_events\<close>, the clock, the stop
  signal) are parameters of the model.  A call that can fail according to the
  specification's error taxonomy (launch, transmission, payload retrieval) answers with
  the exception it raises, if any.  \<open>arrivals k\<close> are the outcome messages that the worker
  hands to the registered hook before the \<open>k\<close>-th tick of the poll loop.
\<close>

record world =
  ident :: int
  is_set_payload :: bool
  get_payload :: string
  is_retrieve_payload :: bool
  retrieve_payload :: "exn + string"
  ESProcess :: "string \<Rightarrow> exn + esprocess"
  start :: "exn option"
  is_stop :: "nat \<Rightarrow> bool"
  time :: "nat \<Rightarrow> real"
  update_events :: "event_range_message \<Rightarrow> exn option"
  arrivals :: "nat \<Rightarrow> msg list"

text \<open>
  The attributes of \<^verbatim>\<open>GenericExecutor\<close>, the two fields of the job the executor reads
  or writes (\<^verbatim>\<open>job.nevents\<close>, \<^verbatim>\<open>job.infosys.queuedata.es_stageout_gap\<close>), the one
  \<^verbatim>\<open>ESProcess\<close> object \<^verbatim>\<open>self.proc\<close> refers to when it is set (\<open>proc\<close> tells whether it is),
  and the trace of effects.
\<close>

record executor =
  queued_out_messages :: "msg list"
  last_stageout_time :: "real option"
  all_out_messages :: "msg list"
  proc :: bool
  exit_code :: "int option"
  nevents :: int
  es_stageout_gap :: real
  the_esprocess :: esprocess
  trace :: "event list"

text \<open>A function of the executor returns the exception it raised, if any, and the state
  it left behind: what was mutated before a raise stays mutated.\<close>

type_synonym outcome = "exn option \<times> executor"

definition GenericExecutor_init :: "real \<Rightarrow> executor" where
  "GenericExecutor_init gap =
     \<lparr>queued_out_messages = [], last_stageout_time = None, all_out_messages = [],
      proc = False, exit_code = None, nevents = 0, es_stageout_gap = gap,
      the_esprocess = \<lparr>pid = 0, alive_for = Some 0, exit_status = 0\<rparr>, trace = []\<rparr>"

definition emit :: "event \<Rightarrow> executor \<Rightarrow> executor" where
  "emit ev s = s\<lparr>trace := trace s @ [ev]\<rparr>"

definition log :: "level \<Rightarrow> string \<Rightarrow> logarg list \<Rightarrow> executor \<Rightarrow> executor" where
  "log lvl fmt args s = emit (Log lvl fmt args) s"

definition call_update_events :: "world \<Rightarrow> event_range_message \<Rightarrow> executor \<Rightarrow> outcome" where
  "call_update_events w m s = (update_events w m, emit (UpdateEvents m) s)"

section \<open>Reporting finished and failed event ranges\<close>

text \<open>The loop of \<^verbatim>\<open>update_finished_event_ranges\<close> (lines 64-66).\<close>

fun finished_ranges :: "msg list \<Rightarrow> json list \<Rightarrow> exn + json list" where
  "finished_ranges [] event_ranges = Inr event_ranges"
| "finished_ranges (out_msg # rest) event_ranges =
     (case out_msg ''id'' of
        None \<Rightarrow> Inl (KeyError ''id'')
      | Some i \<Rightarrow>
          (case out_msg ''output'' of
             None \<Rightarrow> Inl (KeyError ''output'')
           | Some out \<Rightarrow>
               finished_ranges rest
                 (event_ranges @
                    [JObj [(''eventRangeID'', JStr i), (''eventStatus'', JStr ''finished''),
                           (''fileLocation'', JStr out)]])))"

definition update_finished_event_ranges :: "world \<Rightarrow> msg list \<Rightarrow> executor \<Rightarrow> outcome" where
  "update_finished_event_ranges w out_messagess s =
     (if length out_messagess = 0 then (None, s)
      else
        (case finished_ranges out_messagess [] of
           Inl e \<Rightarrow> (Some e, s)
         | Inr event_ranges \<Rightarrow>
             (let event_range_status =
                    JObj [(''esOutput'', JObj [(''numEvents'', JNum (int (length event_ranges)))]),
                          (''eventRanges'', JList event_ranges)];
                  event_range_message =
                    \<lparr>version = 1, eventRanges = JList [event_range_status]\<rparr>
              in (case call_update_events w event_range_message s of
                    (Some e, s1) \<Rightarrow> (Some e, s1)
                  | (None, s1) \<Rightarrow>
                      (None, s1\<lparr>nevents := nevents s1 + int (length event_ranges)\<rparr>)))))"

text \<open>The loop of \<^verbatim>\<open>update_failed_event_ranges\<close> (lines 85-90): the report is built and
  sent inside the loop body.\<close>

fun failed_loop :: "world \<Rightarrow> msg list \<Rightarrow> json list \<Rightarrow> executor \<Rightarrow> outcome" where
  "failed_loop w [] event_ranges s = (None, s)"
| "failed_loop w (message # rest) event_ranges s =
     (case message ''status'' of
        None \<Rightarrow> (Some (KeyError ''status''), s)
      | Some st \<Rightarrow>
          (let status = (if st \<in> set [''failed'', ''fatal''] then st else ''failed'')
           in (case message ''id'' of
                 None \<Rightarrow> (Some (KeyError ''id''), s)
               | Some i \<Rightarrow>
                   (let event_ranges' =
                          event_ranges @
                            [JObj [(''errorCode'', JNum 1220), (''eventRangeID'', JStr i),
                                   (''eventStatus'', JStr status)]];
                        event_range_message =
                          \<lparr>version = 0, eventRanges = JList event_ranges'\<rparr>
                    in (case call_update_events w event_range_message s of
                          (Some e, s1) \<Rightarrow> (Some e, s1)
                        | (None, s1) \<Rightarrow> failed_loop w rest event_ranges' s1)))))"

definition update_failed_event_ranges :: "world \<Rightarrow> msg list \<Rightarrow> executor \<Rightarrow> outcome" where
  "update_failed_event_ranges w out_messagess s =
     (if length out_messagess = 0 then (None, s)
      else failed_loop w out_messagess [] s)"

section \<open>Routing an outcome message\<close>

definition handle_out_message :: "world \<Rightarrow> msg \<Rightarrow> executor \<Rightarrow> outcome" where
  "handle_out_message w message s =
     (let s1 = log INFO ''Handling out message: %s'' [M message] s;
          s2 = s1\<lparr>all_out_messages := all_out_messages s1 @ [message]\<rparr>
      in (case message ''status'' of
            None \<Rightarrow> (Some (KeyError ''status''), s2)
          | Some st \<Rightarrow>
              if st \<in> set [''failed'', ''fatal'']
              then update_failed_event_ranges w [message] s2
              else (None, s2\<lparr>queued_out_messages := queued_out_messages s2 @ [message]\<rparr>)))"

section \<open>Stage-out\<close>

text \<open>The drain loop of \<^verbatim>\<open>stageout_es\<close> (lines 120-122): \<^verbatim>\<open>list.pop()\<close> takes the last
  element.\<close>

function pop_all :: "msg list \<Rightarrow> msg list \<Rightarrow> msg list \<times> msg list" where
  "pop_all queued out_messages =
     (if length queued > 0
      then pop_all (butlast queued) (out_messages @ [last queued])
      else (queued, out_messages))"
  by pat_completeness auto
termination
  by (relation "measure (\<lambda>(queued, out_messages). length queued)") auto

declare pop_all.simps [simp del]

text \<open>\<open>now\<close> is the value \<^verbatim>\<open>time.time()\<close> returns when it is evaluated.\<close>

definition stageout_es :: "world \<Rightarrow> real \<Rightarrow> bool \<Rightarrow> executor \<Rightarrow> outcome" where
  "stageout_es w now force s =
     (if length (queued_out_messages s) \<noteq> 0 then
        if force \<or> last_stageout_time s = None
           \<or> (case last_stageout_time s of
                 Some t \<Rightarrow> now > t + es_stageout_gap s
               | None \<Rightarrow> False)
        then
          (let (queued, out_messages) = pop_all (queued_out_messages s) []
           in update_finished_event_ranges w out_messages
                (s\<lparr>queued_out_messages := queued\<rparr>))
        else (None, s)
      else (None, s))"

section \<open>The worker process handle\<close>

text \<open>Modelled from the spec: \<^verbatim>\<open>ESProcess.is_alive()\<close>, one liveness probe
  (section 4.1, \<^verbatim>\<open>isAlive\<close>).\<close>

definition is_alive :: "executor \<Rightarrow> bool \<times> executor" where
  "is_alive s =
     (case alive_for (the_esprocess s) of
        None \<Rightarrow> (True, s)
      | Some 0 \<Rightarrow> (False, s)
      | Some (Suc n) \<Rightarrow> (True, s\<lparr>the_esprocess := (the_esprocess s)\<lparr>alive_for := Some n\<rparr>\<rparr>))"


text \<open>\<^verbatim>\<open>while proc.is_alive(): time.sleep(...)\<close> (lines 147-148 and 199-200).  The loop
  does not return when the process never exits.\<close>

partial_function (option) wait_while_alive :: "executor \<Rightarrow> executor option" where
  "wait_while_alive s =
     (if fst (is_alive s) then wait_while_alive (snd (is_alive s))
      else Some (snd (is_alive s)))"

section \<open>Cleanup\<close>

text \<open>
  The loop of \<^verbatim>\<open>clean\<close> (lines 132-140).  The \<^verbatim>\<open>try\<close> block holds the log call only
  (\<^verbatim>\<open>os.remove\<close> is commented out on line 138), so nothing in it raises and the
  \<^verbatim>\<open>except\<close> branch is never taken.
\<close>

fun clean_loop :: "msg list \<Rightarrow> executor \<Rightarrow> outcome" where
  "clean_loop [] s = (None, s)"
| "clean_loop (msg # rest) s =
     (case msg ''status'' of
        None \<Rightarrow> (Some (KeyError ''status''), s)
      | Some st \<Rightarrow>
          if st \<in> set [''failed'', ''fatal''] then clean_loop rest s
          else
            (case msg ''output'' of
               Some out \<Rightarrow>
                 clean_loop rest (log INFO ''Removing es premerge file: %s'' [S out] s)
             | None \<Rightarrow> clean_loop rest s))"

definition clean :: "executor \<Rightarrow> outcome option" where
  "clean s =
     (case clean_loop (all_out_messages s) s of
        (Some e, s1) \<Rightarrow> Some (Some e, s1)
      | (None, s1) \<Rightarrow>
          (let s2 = s1\<lparr>queued_out_messages := [], last_stageout_time := None,
                       all_out_messages := []\<rparr>
           in if proc s2
              then (case wait_while_alive (emit ProcStop s2) of
                      None \<Rightarrow> None
                    | Some s3 \<Rightarrow> Some (None, emit StopCommunicator s3))
              else Some (None, emit StopCommunicator s2)))"

section \<open>The control loop\<close>







section \<open>Observations on the trace and reference descriptions\<close>

text \<open>The reports handed to \<^verbatim>\<open>update_events\<close>, in order.\<close>

fun reports :: "event list \<Rightarrow> event_range_message list" where
  "reports [] = []"
| "reports (UpdateEvents m # evs) = m # reports evs"
| "reports (ev # evs) = reports evs"

text \<open>The paths handed to \<^verbatim>\<open>os.remove\<close>, in order.\<close>

fun removals :: "event list \<Rightarrow> string list" where
  "removals [] = []"
| "removals (OsRemove path # evs) = path # removals evs"
| "removals (ev # evs) = removals evs"


text \<open>The record of one finished range in a success report (section 6 of the
  specification): \<^verbatim>\<open>{eventRangeID, eventStatus: "finished", fileLocation}\<close>.\<close>

definition finished_record :: "msg \<Rightarrow> json" where
  "finished_record m =
     JObj [(''eventRangeID'', JStr (the (m ''id''))), (''eventStatus'', JStr ''finished''),
           (''fileLocation'', JStr (the (m ''output'')))]"

text \<open>What \<^verbatim>\<open>clean\<close> does for one entry of the audit log: a log line for an entry that
  is neither failed nor fatal and has an output path, nothing otherwise.\<close>

definition removal_notice :: "msg \<Rightarrow> event list" where
  "removal_notice m =
     (case m ''status'' of
        None \<Rightarrow> []
      | Some st \<Rightarrow>
          if st = ''failed'' \<or> st = ''fatal'' then []
          else (case m ''output'' of
                  None \<Rightarrow> []
                | Some out \<Rightarrow> [Log INFO ''Removing es premerge file: %s'' [S out]]))"

section \<open>Concrete worlds, messages and states\<close>

text \<open>A world in which the payload is pre-set, the worker exits with status 0 after two
  liveness probes, no stop is signalled, nothing arrives and every transmission succeeds.\<close>

definition calm_world :: world where
  "calm_world =
     \<lparr>ident = 1, is_set_payload = True, get_payload = ''payload'',
      is_retrieve_payload = False, retrieve_payload = Inr ''payload'',
      ESProcess = (\<lambda>payload. Inr \<lparr>pid = 4242, alive_for = Some 2, exit_status = 0\<rparr>),
      start = None, is_stop = (\<lambda>k. False), time = (\<lambda>k. 1000 + 5 * real k),
      update_events = (\<lambda>m. None), arrivals = (\<lambda>k. [])\<rparr>"


definition msg_r1 :: msg where
  "msg_r1 = [''id'' \<mapsto> ''r1'', ''status'' \<mapsto> ''finished'', ''output'' \<mapsto> ''/tmp/r1.out'']"

definition msg_r2 :: msg where
  "msg_r2 = [''id'' \<mapsto> ''r2'', ''status'' \<mapsto> ''failed'']"

definition msg_r3 :: msg where
  "msg_r3 = [''id'' \<mapsto> ''r3'', ''status'' \<mapsto> ''fatal'']"

definition msg_r4 :: msg where
  "msg_r4 = [''id'' \<mapsto> ''r4'', ''status'' \<mapsto> ''finished'', ''output'' \<mapsto> ''/tmp/r4.out'']"

definition msg_r5 :: msg where
  "msg_r5 = [''id'' \<mapsto> ''r5'', ''status'' \<mapsto> ''finished'']"


text \<open>A fresh executor (stage-out gap 600) after the hook has received \<open>msg_r1\<close>; after a
  first non-forced stage-out at time 1000; after the hook has then received \<open>msg_r4\<close>; and
  after a second non-forced stage-out at time 1001.\<close>

definition queued_r1 :: executor where
  "queued_r1 = snd (handle_out_message calm_world msg_r1 (GenericExecutor_init 600))"

definition flushed_r1 :: executor where
  "flushed_r1 = snd (stageout_es calm_world 1000 False queued_r1)"

definition queued_r4 :: executor where
  "queued_r4 = snd (handle_out_message calm_world msg_r4 flushed_r1)"

definition flushed_r4 :: executor where
  "flushed_r4 = snd (stageout_es calm_world 1001 False queued_r4)"

text \<open>A fresh executor after the hook has received \<open>msg_r1\<close> and \<open>msg_r4\<close>.\<close>

definition queued_r1_r4 :: executor where
  "queued_r1_r4 = snd (handle_out_message calm_world msg_r4 queued_r1)"



text \<open>The state in which the \<^verbatim>\<open>try\<close> block of \<^verbatim>\<open>run\<close> ends in that scenario.\<close>

definition scenario_end :: executor where
  "scenario_end =
     \<lparr>queued_out_messages = [], last_stageout_time = None, all_out_messages = [],
      proc = True, exit_code = Some 0, nevents = 1, es_stageout_gap = 600,
      the_esprocess = \<lparr>pid = 4242, alive_for = Some 0, exit_status = 0\<rparr>,
      trace =
        [Log INFO ''starting ES GenericExecutor with thread ident: %s'' [I 1],
         Log INFO ''payload: %s'' [S ''payload''],
         Log INFO ''Starting ESProcess'' [],
         NewESProcess ''payload'',
         Log INFO ''ESProcess initialized'' [],
         SetGetEventRangesHook, SetHandleOutMessageHook,
         Log INFO ''ESProcess starts to run'' [],
         ProcStart,
         Log INFO ''ESProcess started to run'' [],
         Log INFO ''Handling out message: %s'' [M msg_r1],
         UpdateEvents
           \<lparr>version = 1,
            eventRanges = JList [JObj
              [(''esOutput'', JObj [(''numEvents'', JNum 1)]),
               (''eventRanges'',
                JList [JObj [(''eventRangeID'', JStr ''r1''), (''eventStatus'', JStr ''finished''),
                             (''fileLocation'', JStr ''/tmp/r1.out'')]])]]\<rparr>,
         Log INFO ''ESProcess finished'' [],
         Log INFO ''Removing es premerge file: %s'' [S ''/tmp/r1.out''],
         ProcStop, StopCommunicator]\<rparr>"



section \<open>Auxiliary facts\<close>

lemma reports_append: "reports (xs @ ys) = reports xs @ reports ys"
  by (induction xs rule: reports.induct) simp_all

lemma removals_append: "removals (xs @ ys) = removals xs @ removals ys"
  by (induction xs rule: removals.induct) simp_all

lemma removals_removal_notice: "removals (concat (map removal_notice msgs)) = []"
  by (induction msgs)
     (simp_all add: removals_append removal_notice_def split: option.splits)

lemma pop_all_eq: "pop_all queued out_messages = ([], out_messages @ rev queued)"
proof (induction queued out_messages rule: pop_all.induct)
  case (1 queued out_messages)
  show ?case
  proof (cases "queued = []")
    case True
    then show ?thesis by (simp add: pop_all.simps)
  next
    case False
    then have q: "queued = butlast queued @ [last queued]" by simp
    have "pop_all queued out_messages = pop_all (butlast queued) (out_messages @ [last queued])"
      using False by (subst pop_all.simps) simp
    also have "\<dots> = ([], (out_messages @ [last queued]) @ rev (butlast queued))"
      using False "1.IH" by simp
    also have "(out_messages @ [last queued]) @ rev (butlast queued) = out_messages @ rev queued"
      by (subst (2) q) (simp del: append_butlast_last_id)
    finally show ?thesis .
  qed
qed

lemma finished_ranges_wf:
  "\<forall>m\<in>set msgs. m ''id'' \<noteq> None \<and> m ''output'' \<noteq> None \<Longrightarrow>
   finished_ranges msgs acc = Inr (acc @ map finished_record msgs)"
  by (induction msgs arbitrary: acc) (auto simp: finished_record_def)

lemma stageout_es_flush:
  assumes q: "queued_out_messages s \<noteq> []"
      and due: "force \<or> last_stageout_time s = None
                \<or> (\<exists>t. last_stageout_time s = Some t \<and> now > t + es_stageout_gap s)"
      and wf: "\<forall>m\<in>set (queued_out_messages s). m ''id'' \<noteq> None \<and> m ''output'' \<noteq> None"
  shows "stageout_es w now force s =
     (let report = \<lparr>version = 1,
             eventRanges = JList [JObj
               [(''esOutput'', JObj [(''numEvents'', JNum (int (length (queued_out_messages s))))]),
                (''eventRanges'', JList (map finished_record (rev (queued_out_messages s))))]]\<rparr>
      in (update_events w report,
          s\<lparr>queued_out_messages := [],
            trace := trace s @ [UpdateEvents report],
            nevents := (if update_events w report = None
                        then nevents s + int (length (queued_out_messages s)) else nevents s)\<rparr>))"
proof -
  have wf': "\<forall>m\<in>set (rev (queued_out_messages s)). m ''id'' \<noteq> None \<and> m ''output'' \<noteq> None"
    using wf by simp
  have cond: "(force \<or> last_stageout_time s = None
           \<or> (case last_stageout_time s of
                 Some t \<Rightarrow> now > t + es_stageout_gap s
               | None \<Rightarrow> False))"
    using due by auto
  show ?thesis
    unfolding stageout_es_def
    using q cond
    by (cases "update_events w \<lparr>version = 1,
             eventRanges = JList [JObj
               [(''esOutput'', JObj [(''numEvents'', JNum (int (length (queued_out_messages s))))]),
                (''eventRanges'', JList (map finished_record (rev (queued_out_messages s))))]]\<rparr>")
       (simp_all add: pop_all_eq update_finished_event_ranges_def finished_ranges_wf[OF wf']
          call_update_events_def emit_def Let_def)
qed

lemma stageout_es_keeps_last_stageout_time:
  "last_stageout_time (snd (stageout_es w now force s)) = last_stageout_time s"
  by (simp add: stageout_es_def pop_all_eq update_finished_event_ranges_def
        call_update_events_def emit_def Let_def split: sum.splits option.splits prod.splits)

lemma queued_r1_eq:
  "queued_r1 =
     (GenericExecutor_init 600)
       \<lparr>queued_out_messages := [msg_r1], all_out_messages := [msg_r1],
        trace := [Log INFO ''Handling out message: %s'' [M msg_r1]]\<rparr>"
proof -
  have "msg_r1 ''status'' = Some ''finished''" by (simp add: msg_r1_def)
  then show ?thesis
    by (simp add: queued_r1_def handle_out_message_def log_def emit_def GenericExecutor_init_def)
qed

lemma queued_r1_r4_eq:
  "queued_r1_r4 =
     (GenericExecutor_init 600)
       \<lparr>queued_out_messages := [msg_r1, msg_r4], all_out_messages := [msg_r1, msg_r4],
        trace := [Log INFO ''Handling out message: %s'' [M msg_r1],
                  Log INFO ''Handling out message: %s'' [M msg_r4]]\<rparr>"
proof -
  have "msg_r4 ''status'' = Some ''finished''" by (simp add: msg_r4_def)
  then show ?thesis
    by (simp add: queued_r1_r4_def queued_r1_eq handle_out_message_def log_def emit_def
          GenericExecutor_init_def)
qed

lemma msg_r1_fields:
  "msg_r1 ''id'' = Some ''r1''" "msg_r1 ''status'' = Some ''finished''"
  "msg_r1 ''output'' = Some ''/tmp/r1.out''"
  by (simp_all add: msg_r1_def)

lemma msg_r4_fields:
  "msg_r4 ''id'' = Some ''r4''" "msg_r4 ''status'' = Some ''finished''"
  "msg_r4 ''output'' = Some ''/tmp/r4.out''"
  by (simp_all add: msg_r4_def)

lemma msg_r2_fields:
  "msg_r2 ''id'' = Some ''r2''" "msg_r2 ''status'' = Some ''failed''" "msg_r2 ''output'' = None"
  by (simp_all add: msg_r2_def)

lemma msg_r3_fields:
  "msg_r3 ''id'' = Some ''r3''" "msg_r3 ''status'' = Some ''fatal''" "msg_r3 ''output'' = None"
  by (simp_all add: msg_r3_def)

lemma calm_world_update_events: "update_events calm_world m = None"
  by (simp add: calm_world_def)

lemma wait_while_alive_mortal:
  "alive_for (the_esprocess s) = Some n \<Longrightarrow>
   wait_while_alive s = Some (s\<lparr>the_esprocess := (the_esprocess s)\<lparr>alive_for := Some 0\<rparr>\<rparr>)"
proof (induction n arbitrary: s)
  case 0
  then have "is_alive s = (False, s)" by (simp add: is_alive_def)
  moreover have "s\<lparr>the_esprocess := (the_esprocess s)\<lparr>alive_for := Some 0\<rparr>\<rparr> = s"
    using 0 by simp
  ultimately show ?case by (subst wait_while_alive.simps) simp
next
  case (Suc n)
  let ?s = "s\<lparr>the_esprocess := (the_esprocess s)\<lparr>alive_for := Some n\<rparr>\<rparr>"
  have a: "is_alive s = (True, ?s)" using Suc.prems by (simp add: is_alive_def)
  have "wait_while_alive s = wait_while_alive ?s"
    by (subst wait_while_alive.simps) (simp add: a)
  also have "\<dots> = Some (?s\<lparr>the_esprocess := (the_esprocess ?s)\<lparr>alive_for := Some 0\<rparr>\<rparr>)"
    by (rule Suc.IH) simp
  finally show ?case by simp
qed

lemma wait_while_alive_Some:
  assumes "wait_while_alive s = Some s'"
  shows "s' = s\<lparr>the_esprocess := (the_esprocess s)\<lparr>alive_for := Some 0\<rparr>\<rparr>
         \<and> alive_for (the_esprocess s) \<noteq> None"
  using assms
proof (induction arbitrary: s s' rule: wait_while_alive.fixp_induct)
  case 1
  show ?case by (rule option_admissible)
next
  case 2
  then show ?case by simp
next
  case (3 f)
  show ?case
  proof (cases "alive_for (the_esprocess s)")
    case None
    then have "is_alive s = (True, s)" by (simp add: is_alive_def)
    with 3(2) have "f s = Some s'" by simp
    from 3(1)[OF this] None show ?thesis by simp
  next
    case (Some n)
    show ?thesis
    proof (cases n)
      case 0
      with Some have "is_alive s = (False, s)" by (simp add: is_alive_def)
      with 3(2) have "s' = s" by simp
      with Some 0 show ?thesis by simp
    next
      case (Suc k)
      let ?s = "s\<lparr>the_esprocess := (the_esprocess s)\<lparr>alive_for := Some k\<rparr>\<rparr>"
      from Some Suc have "is_alive s = (True, ?s)" by (simp add: is_alive_def)
      with 3(2) have "f ?s = Some s'" by simp
      from 3(1)[OF this] Some show ?thesis by simp
    qed
  qed
qed

lemma clean_loop_wf:
  "\<forall>m\<in>set msgs. m ''status'' \<noteq> None \<Longrightarrow>
   clean_loop msgs s = (None, s\<lparr>trace := trace s @ concat (map removal_notice msgs)\<rparr>)"
proof (induction msgs arbitrary: s)
  case Nil
  then show ?case by simp
next
  case (Cons m msgs)
  then obtain st where st: "m ''status'' = Some st" by auto
  from Cons have IH: "\<And>s. clean_loop msgs s = (None, s\<lparr>trace := trace s @ concat (map removal_notice msgs)\<rparr>)"
    by simp
  have rn: "removal_notice m =
     (if st = ''failed'' \<or> st = ''fatal'' then []
      else (case m ''output'' of
              None \<Rightarrow> []
            | Some out \<Rightarrow> [Log INFO ''Removing es premerge file: %s'' [S out]]))"
    by (simp add: removal_notice_def st)
  show ?case
    by (cases "m ''output''") (simp_all add: st IH rn log_def emit_def)
qed

text \<open>The loop of \<^verbatim>\<open>clean\<close> touches nothing but the trace.\<close>

lemma clean_loop_frame:
  "\<exists>evs. snd (clean_loop msgs s) = s\<lparr>trace := trace s @ evs\<rparr>"
proof (induction msgs arbitrary: s)
  case Nil
  have "s = s\<lparr>trace := trace s @ []\<rparr>" by simp
  then show ?case by (metis clean_loop.simps(1) snd_conv)
next
  case (Cons m msgs)
  show ?case
  proof (cases "m ''status''")
    case None
    have "s = s\<lparr>trace := trace s @ []\<rparr>" by simp
    then have "snd (clean_loop (m # msgs) s) = s\<lparr>trace := trace s @ []\<rparr>"
      using None by simp
    then show ?thesis by blast
  next
    case (Some st)
    show ?thesis
    proof (cases "(st = ''failed'' \<or> st = ''fatal'') \<or> m ''output'' = None")
      case True
      then have "clean_loop (m # msgs) s = clean_loop msgs s"
        using Some by auto
      with Cons.IH [of s] show ?thesis by simp
    next
      case False
      then obtain out where out: "m ''output'' = Some out" by auto
      let ?s = "log INFO ''Removing es premerge file: %s'' [S out] s"
      have e: "clean_loop (m # msgs) s = clean_loop msgs ?s"
        using Some False out by simp
      from Cons.IH [of ?s] obtain evs where
        "snd (clean_loop msgs ?s) = ?s\<lparr>trace := trace ?s @ evs\<rparr>" by blast
      then have "snd (clean_loop (m # msgs) s) =
          s\<lparr>trace := trace s @ (Log INFO ''Removing es premerge file: %s'' [S out] # evs)\<rparr>"
        by (simp add: e log_def emit_def del: clean_loop.simps)
      then show ?thesis by blast
    qed
  qed
qed

text \<open>The loop of \<^verbatim>\<open>clean\<close> does not read the attribute it iterates over.\<close>

lemma clean_loop_audit_frame:
  "clean_loop msgs (s\<lparr>all_out_messages := a, trace := t\<rparr>) =
     (fst (clean_loop msgs (s\<lparr>trace := t\<rparr>)),
      (snd (clean_loop msgs (s\<lparr>trace := t\<rparr>)))\<lparr>all_out_messages := a\<rparr>)"
proof (induction msgs arbitrary: t)
  case Nil
  show ?case by simp
next
  case (Cons b msgs)
  show ?case
    by (cases "b ''status''"; cases "b ''output''")
       (simp_all add: Cons.IH log_def emit_def)
qed

lemma clean_returns:
  assumes wf: "\<forall>m\<in>set (all_out_messages s). m ''status'' \<noteq> None"
      and mortal: "proc s \<longrightarrow> alive_for (the_esprocess s) \<noteq> None"
  shows "clean s =
     Some (None,
       s\<lparr>queued_out_messages := [], last_stageout_time := None, all_out_messages := [],
         the_esprocess :=
           (if proc s then (the_esprocess s)\<lparr>alive_for := Some 0\<rparr> else the_esprocess s),
         trace := trace s @ concat (map removal_notice (all_out_messages s))
                  @ (if proc s then [ProcStop] else []) @ [StopCommunicator]\<rparr>)"
proof (cases "proc s")
  case False
  then show ?thesis
    by (simp add: clean_def clean_loop_wf[OF wf] emit_def)
next
  case True
  with mortal obtain n where n: "alive_for (the_esprocess s) = Some n" by auto
  let ?s2 = "emit ProcStop (s\<lparr>trace := trace s @ concat (map removal_notice (all_out_messages s)),
                 queued_out_messages := [], last_stageout_time := None, all_out_messages := []\<rparr>)"
  have "alive_for (the_esprocess ?s2) = Some n" using n by (simp add: emit_def)
  from wait_while_alive_mortal[OF this] True show ?thesis
    by (simp add: clean_def clean_loop_wf[OF wf] emit_def)
qed

text \<open>What a normal return of \<^verbatim>\<open>clean\<close> leaves behind.\<close>

lemma clean_Some_None:
  assumes "clean s = Some (None, s1)"
  shows "queued_out_messages s1 = [] \<and> all_out_messages s1 = []
         \<and> last_stageout_time s1 = None
         \<and> (proc s1 \<longrightarrow> alive_for (the_esprocess s1) = Some 0)"
proof -
  obtain e s0 where cl: "clean_loop (all_out_messages s) s = (e, s0)"
    by (cases "clean_loop (all_out_messages s) s")
  from clean_loop_frame [of "all_out_messages s" s] cl obtain evs where
    s0: "s0 = s\<lparr>trace := trace s @ evs\<rparr>" by auto
  from assms cl have e: "e = None" by (cases e) (simp_all add: clean_def)
  let ?s2 = "s0\<lparr>queued_out_messages := [], last_stageout_time := None, all_out_messages := []\<rparr>"
  show ?thesis
  proof (cases "proc s")
    case False
    with assms cl e s0 have "s1 = emit StopCommunicator ?s2" by (simp add: clean_def)
    with False s0 show ?thesis by (simp add: emit_def)
  next
    case True
    with assms cl e s0 obtain s3 where
      w: "wait_while_alive (emit ProcStop ?s2) = Some s3" and s1: "s1 = emit StopCommunicator s3"
      by (auto simp: clean_def emit_def split: option.splits)
    from wait_while_alive_Some [OF w] s1 s0 show ?thesis by (simp add: emit_def)
  qed
qed







section \<open>Stage-out scheduling\<close>

text \<open>
  C9.  For every value of the force flag, \<^verbatim>\<open>stageout_es\<close> on an empty pending queue does
  nothing: it returns normally and leaves the whole state as it was, so no report is
  transmitted and neither the job's event counter nor the last-flush timestamp changes.
\<close>

theorem stageout_es_empty_queue_noop:
  "queued_out_messages s = [] \<Longrightarrow> stageout_es w now force s = (None, s)"
  by (simp add: stageout_es_def)

theorem stageout_es_empty_queue_noop_witness:
  "queued_out_messages (GenericExecutor_init 600) = []
   \<and> stageout_es calm_world 1000 True (GenericExecutor_init 600) = (None, GenericExecutor_init 600)
   \<and> stageout_es calm_world 1000 False (GenericExecutor_init 600) = (None, GenericExecutor_init 600)"
proof -
  have h: "queued_out_messages (GenericExecutor_init 600) = []"
    by (simp add: GenericExecutor_init_def)
  show ?thesis
    using h stageout_es_empty_queue_noop [OF h, of calm_world 1000 True]
      stageout_es_empty_queue_noop [OF h, of calm_world 1000 False]
    by simp
qed

text \<open>
  C5.  A flush by \<^verbatim>\<open>stageout_es\<close> over a pending queue of \<open>N\<close> messages that carry an id
  and an output path empties the queue and hands exactly one report to
  \<^verbatim>\<open>update_events\<close>: version 1, \<open>numEvents = N\<close>, and one
  \<^verbatim>\<open>{eventRangeID, eventStatus: 'finished', fileLocation}\<close> record per drained message (in
  the order the messages are popped, last first).  When the call returns normally the job's
  event counter has grown by exactly \<open>N\<close>.
\<close>

theorem stageout_es_flush_drains_queue:
  assumes "queued_out_messages s \<noteq> []"
      and "force \<or> last_stageout_time s = None
           \<or> (\<exists>t. last_stageout_time s = Some t \<and> now > t + es_stageout_gap s)"
      and "\<forall>m\<in>set (queued_out_messages s). m ''id'' \<noteq> None \<and> m ''output'' \<noteq> None"
  shows "queued_out_messages (snd (stageout_es w now force s)) = []
     \<and> reports (trace (snd (stageout_es w now force s))) =
         reports (trace s) @
           [\<lparr>version = 1,
             eventRanges = JList [JObj
               [(''esOutput'', JObj [(''numEvents'', JNum (int (length (queued_out_messages s))))]),
                (''eventRanges'', JList (map finished_record (rev (queued_out_messages s))))]]\<rparr>]
     \<and> (fst (stageout_es w now force s) = None \<longrightarrow>
          nevents (snd (stageout_es w now force s)) =
            nevents s + int (length (queued_out_messages s)))"
  by (simp add: stageout_es_flush [OF assms] Let_def reports_append)

theorem stageout_es_flush_drains_queue_witness:
  "queued_out_messages queued_r1_r4 = [msg_r1, msg_r4]
   \<and> last_stageout_time queued_r1_r4 = None
   \<and> queued_out_messages (snd (stageout_es calm_world 1000 False queued_r1_r4)) = []
   \<and> reports (trace (snd (stageout_es calm_world 1000 False queued_r1_r4))) =
       [\<lparr>version = 1,
         eventRanges = JList [JObj
           [(''esOutput'', JObj [(''numEvents'', JNum 2)]),
            (''eventRanges'',
             JList [JObj [(''eventRangeID'', JStr ''r4''), (''eventStatus'', JStr ''finished''),
                          (''fileLocation'', JStr ''/tmp/r4.out'')],
                    JObj [(''eventRangeID'', JStr ''r1''), (''eventStatus'', JStr ''finished''),
                          (''fileLocation'', JStr ''/tmp/r1.out'')]])]]\<rparr>]
   \<and> fst (stageout_es calm_world 1000 False queued_r1_r4) = None
   \<and> nevents (snd (stageout_es calm_world 1000 False queued_r1_r4)) = 2"
proof -
  have q: "queued_out_messages queued_r1_r4 = [msg_r1, msg_r4]"
    by (simp add: queued_r1_r4_eq)
  have l: "last_stageout_time queued_r1_r4 = None"
    by (simp add: queued_r1_r4_eq GenericExecutor_init_def)
  have h1: "queued_out_messages queued_r1_r4 \<noteq> []" by (simp add: q)
  have h2: "False \<or> last_stageout_time queued_r1_r4 = None
            \<or> (\<exists>t. last_stageout_time queued_r1_r4 = Some t
                    \<and> 1000 > t + es_stageout_gap queued_r1_r4)"
    by (simp add: l)
  have h3: "\<forall>m\<in>set (queued_out_messages queued_r1_r4). m ''id'' \<noteq> None \<and> m ''output'' \<noteq> None"
    by (simp add: q msg_r1_fields msg_r4_fields)
  have ok: "fst (stageout_es calm_world 1000 False queued_r1_r4) = None"
    by (simp add: stageout_es_flush [OF h1 h2 h3] Let_def calm_world_update_events)
  have n: "nevents queued_r1_r4 = 0" "trace queued_r1_r4 =
      [Log INFO ''Handling out message: %s'' [M msg_r1],
       Log INFO ''Handling out message: %s'' [M msg_r4]]"
    by (simp_all add: queued_r1_r4_eq GenericExecutor_init_def)
  show ?thesis
    using stageout_es_flush_drains_queue [OF h1 h2 h3, of calm_world] ok
    by (simp add: q l n finished_record_def msg_r1_fields msg_r4_fields)
qed

text \<open>
  C1.  The code never assigns the last-flush timestamp.  A fresh executor with a
  stage-out gap of 600 receives \<open>msg_r1\<close>, flushes it at time 1000 (not forced), receives
  \<open>msg_r4\<close> and is given a second, non-forced flush opportunity at time 1001: the timestamp
  is still unset after the first flush, and the second opportunity transmits a second
  report.
\<close>

theorem stageout_es_flushes_again_within_gap:
  "last_stageout_time flushed_r1 = None
   \<and> es_stageout_gap queued_r4 = 600
   \<and> reports (trace flushed_r1) =
       [\<lparr>version = 1,
         eventRanges = JList [JObj
           [(''esOutput'', JObj [(''numEvents'', JNum 1)]),
            (''eventRanges'',
             JList [JObj [(''eventRangeID'', JStr ''r1''), (''eventStatus'', JStr ''finished''),
                          (''fileLocation'', JStr ''/tmp/r1.out'')]])]]\<rparr>]
   \<and> reports (trace flushed_r4) =
       [\<lparr>version = 1,
         eventRanges = JList [JObj
           [(''esOutput'', JObj [(''numEvents'', JNum 1)]),
            (''eventRanges'',
             JList [JObj [(''eventRangeID'', JStr ''r1''), (''eventStatus'', JStr ''finished''),
                          (''fileLocation'', JStr ''/tmp/r1.out'')]])]]\<rparr>,
        \<lparr>version = 1,
         eventRanges = JList [JObj
           [(''esOutput'', JObj [(''numEvents'', JNum 1)]),
            (''eventRanges'',
             JList [JObj [(''eventRangeID'', JStr ''r4''), (''eventStatus'', JStr ''finished''),
                          (''fileLocation'', JStr ''/tmp/r4.out'')]])]]\<rparr>]"
proof -
  let ?rep1 = "\<lparr>version = 1,
         eventRanges = JList [JObj
           [(''esOutput'', JObj [(''numEvents'', JNum 1)]),
            (''eventRanges'',
             JList [JObj [(''eventRangeID'', JStr ''r1''), (''eventStatus'', JStr ''finished''),
                          (''fileLocation'', JStr ''/tmp/r1.out'')]])]]\<rparr>"
  let ?rep4 = "\<lparr>version = 1,
         eventRanges = JList [JObj
           [(''esOutput'', JObj [(''numEvents'', JNum 1)]),
            (''eventRanges'',
             JList [JObj [(''eventRangeID'', JStr ''r4''), (''eventStatus'', JStr ''finished''),
                          (''fileLocation'', JStr ''/tmp/r4.out'')]])]]\<rparr>"
  have f1: "flushed_r1 =
     (GenericExecutor_init 600)
       \<lparr>queued_out_messages := [], all_out_messages := [msg_r1], nevents := 1,
        trace := [Log INFO ''Handling out message: %s'' [M msg_r1], UpdateEvents ?rep1]\<rparr>"
    by (simp add: flushed_r1_def queued_r1_eq stageout_es_def pop_all_eq
          update_finished_event_ranges_def call_update_events_def emit_def
          calm_world_update_events msg_r1_fields GenericExecutor_init_def)
  have q4: "queued_r4 =
     (GenericExecutor_init 600)
       \<lparr>queued_out_messages := [msg_r4], all_out_messages := [msg_r1, msg_r4], nevents := 1,
        trace := [Log INFO ''Handling out message: %s'' [M msg_r1], UpdateEvents ?rep1,
                  Log INFO ''Handling out message: %s'' [M msg_r4]]\<rparr>"
    by (simp add: queued_r4_def f1 handle_out_message_def log_def emit_def msg_r4_fields
          GenericExecutor_init_def)
  have f4: "trace flushed_r4 =
       [Log INFO ''Handling out message: %s'' [M msg_r1], UpdateEvents ?rep1,
        Log INFO ''Handling out message: %s'' [M msg_r4], UpdateEvents ?rep4]"
    by (simp add: flushed_r4_def q4 stageout_es_def pop_all_eq
          update_finished_event_ranges_def call_update_events_def emit_def
          calm_world_update_events msg_r4_fields GenericExecutor_init_def)
  show ?thesis
    by (simp add: f1 q4 f4 GenericExecutor_init_def)
qed

section \<open>Failure reports and routing\<close>

text \<open>
  C3.  \<^verbatim>\<open>update_failed_event_ranges\<close> sends from inside its loop.  Called with the two
  failure messages \<open>msg_r2\<close> (failed) and \<open>msg_r3\<close> (fatal) it forwards two reports: the
  first holds the record of \<open>r2\<close>, the second the records of \<open>r2\<close> and \<open>r3\<close>.
\<close>

theorem update_failed_event_ranges_two_messages:
  "reports (trace (snd (update_failed_event_ranges calm_world [msg_r2, msg_r3]
                          (GenericExecutor_init 600)))) =
     [\<lparr>version = 0,
       eventRanges =
         JList [JObj [(''errorCode'', JNum 1220), (''eventRangeID'', JStr ''r2''),
                      (''eventStatus'', JStr ''failed'')]]\<rparr>,
      \<lparr>version = 0,
       eventRanges =
         JList [JObj [(''errorCode'', JNum 1220), (''eventRangeID'', JStr ''r2''),
                      (''eventStatus'', JStr ''failed'')],
                JObj [(''errorCode'', JNum 1220), (''eventRangeID'', JStr ''r3''),
                      (''eventStatus'', JStr ''fatal'')]]\<rparr>]"
  by (simp add: update_failed_event_ranges_def call_update_events_def emit_def Let_def
        calm_world_update_events msg_r2_fields msg_r3_fields GenericExecutor_init_def)

text \<open>
  C4.  \<^verbatim>\<open>handle_out_message\<close> appends the message to the audit log exactly once, whatever
  the message is.  When the status is \<^verbatim>\<open>failed\<close> or \<^verbatim>\<open>fatal\<close> (and the message has an
  id) exactly one report, holding the failure record of that message, is handed to
  \<^verbatim>\<open>update_events\<close> and the pending queue is unchanged.  For any other status the call
  returns normally, the message is the one entry appended to the pending queue and no
  report is made.
\<close>

theorem handle_out_message_routing:
  "all_out_messages (snd (handle_out_message w m s)) = all_out_messages s @ [m]
   \<and> (m ''status'' = Some st \<longrightarrow> st = ''failed'' \<or> st = ''fatal'' \<longrightarrow> m ''id'' = Some i \<longrightarrow>
        reports (trace (snd (handle_out_message w m s))) =
          reports (trace s) @
            [\<lparr>version = 0,
              eventRanges =
                JList [JObj [(''errorCode'', JNum 1220), (''eventRangeID'', JStr i),
                             (''eventStatus'', JStr st)]]\<rparr>]
        \<and> queued_out_messages (snd (handle_out_message w m s)) = queued_out_messages s)
   \<and> (m ''status'' = Some st \<longrightarrow> st \<noteq> ''failed'' \<longrightarrow> st \<noteq> ''fatal'' \<longrightarrow>
        fst (handle_out_message w m s) = None
        \<and> queued_out_messages (snd (handle_out_message w m s)) = queued_out_messages s @ [m]
        \<and> reports (trace (snd (handle_out_message w m s))) = reports (trace s))"
proof (intro conjI impI)
  show "all_out_messages (snd (handle_out_message w m s)) = all_out_messages s @ [m]"
    by (cases "m ''status''"; cases "m ''id''";
        cases "update_events w \<lparr>version = 0,
              eventRanges =
                JList [JObj [(''errorCode'', JNum 1220), (''eventRangeID'', JStr (the (m ''id''))),
                             (''eventStatus'', JStr (the (m ''status'')))]]\<rparr>")
       (simp_all add: handle_out_message_def update_failed_event_ranges_def
          call_update_events_def log_def emit_def Let_def)
next
  assume a: "m ''status'' = Some st" "st = ''failed'' \<or> st = ''fatal''" "m ''id'' = Some i"
  let ?rep = "\<lparr>version = 0,
              eventRanges =
                JList [JObj [(''errorCode'', JNum 1220), (''eventRangeID'', JStr i),
                             (''eventStatus'', JStr st)]]\<rparr>"
  have r: "handle_out_message w m s =
      (update_events w ?rep,
       s\<lparr>all_out_messages := all_out_messages s @ [m],
         trace := trace s @ [Log INFO ''Handling out message: %s'' [M m], UpdateEvents ?rep]\<rparr>)"
    using a
    by (cases "update_events w ?rep")
       (auto simp: handle_out_message_def update_failed_event_ranges_def
          call_update_events_def log_def emit_def Let_def)
  show "reports (trace (snd (handle_out_message w m s))) = reports (trace s) @ [?rep]"
    by (simp add: r reports_append)
  show "queued_out_messages (snd (handle_out_message w m s)) = queued_out_messages s"
    by (simp add: r)
next
  assume a: "m ''status'' = Some st" "st \<noteq> ''failed''" "st \<noteq> ''fatal''"
  have r: "handle_out_message w m s =
      (None,
       s\<lparr>all_out_messages := all_out_messages s @ [m],
         queued_out_messages := queued_out_messages s @ [m],
         trace := trace s @ [Log INFO ''Handling out message: %s'' [M m]]\<rparr>)"
    using a by (simp add: handle_out_message_def log_def emit_def Let_def)
  show "fst (handle_out_message w m s) = None" by (simp add: r)
  show "queued_out_messages (snd (handle_out_message w m s)) = queued_out_messages s @ [m]"
    by (simp add: r)
  show "reports (trace (snd (handle_out_message w m s))) = reports (trace s)"
    by (simp add: r reports_append)
qed

theorem handle_out_message_routing_witness:
  "msg_r2 ''status'' = Some ''failed'' \<and> msg_r2 ''id'' = Some ''r2''
   \<and> all_out_messages (snd (handle_out_message calm_world msg_r2 queued_r1)) = [msg_r1, msg_r2]
   \<and> reports (trace (snd (handle_out_message calm_world msg_r2 queued_r1))) =
       [\<lparr>version = 0,
         eventRanges =
           JList [JObj [(''errorCode'', JNum 1220), (''eventRangeID'', JStr ''r2''),
                        (''eventStatus'', JStr ''failed'')]]\<rparr>]
   \<and> queued_out_messages (snd (handle_out_message calm_world msg_r2 queued_r1)) = [msg_r1]
   \<and> msg_r4 ''status'' = Some ''finished''
   \<and> all_out_messages (snd (handle_out_message calm_world msg_r4 queued_r1)) = [msg_r1, msg_r4]
   \<and> fst (handle_out_message calm_world msg_r4 queued_r1) = None
   \<and> queued_out_messages (snd (handle_out_message calm_world msg_r4 queued_r1)) = [msg_r1, msg_r4]
   \<and> reports (trace (snd (handle_out_message calm_world msg_r4 queued_r1))) = []"
proof -
  have s: "all_out_messages queued_r1 = [msg_r1]" "queued_out_messages queued_r1 = [msg_r1]"
    "reports (trace queued_r1) = []"
    by (simp_all add: queued_r1_eq)
  show ?thesis
    using handle_out_message_routing [of calm_world msg_r2 queued_r1 "''failed''" "''r2''"]
      handle_out_message_routing [of calm_world msg_r4 queued_r1 "''finished''" "''r4''"]
    by (simp add: s msg_r2_fields msg_r4_fields)
qed

section \<open>Cleanup\<close>

text \<open>
  C10.  An entry of the audit log whose status is neither \<^verbatim>\<open>failed\<close> nor \<^verbatim>\<open>fatal\<close>
  and which has no \<^verbatim>\<open>output\<close> field is skipped by \<^verbatim>\<open>clean\<close>: on its own it causes no
  effect and no exception, and the loop over a log that contains it has the outcome and
  the effects of the loop over the log without it.
\<close>

theorem clean_skips_entry_without_output:
  assumes "m ''status'' = Some st" and "st \<noteq> ''failed''" and "st \<noteq> ''fatal''"
      and "m ''output'' = None"
  shows "clean_loop [m] s = (None, s)
     \<and> clean_loop (before @ m # after) s = clean_loop (before @ after) s
     \<and> map_option fst (clean (s\<lparr>all_out_messages := before @ m # after\<rparr>)) =
         map_option fst (clean (s\<lparr>all_out_messages := before @ after\<rparr>))
     \<and> map_option (trace \<circ> snd) (clean (s\<lparr>all_out_messages := before @ m # after\<rparr>)) =
         map_option (trace \<circ> snd) (clean (s\<lparr>all_out_messages := before @ after\<rparr>))"
proof -
  have one: "\<And>s'. clean_loop (m # after) s' = clean_loop after s'"
    using assms by simp
  have skip: "\<And>s'. clean_loop (before @ m # after) s' = clean_loop (before @ after) s'"
  proof (induction before)
    case Nil
    show ?case by (simp add: one del: clean_loop.simps)
  next
    case (Cons b before)
    show ?case
      by (cases "b ''status''"; cases "b ''output''") (simp_all add: Cons.IH)
  qed
  have frame: "\<And>msgs a. clean_loop msgs (s\<lparr>all_out_messages := a\<rparr>) =
      (fst (clean_loop msgs s), (snd (clean_loop msgs s))\<lparr>all_out_messages := a\<rparr>)"
    using clean_loop_audit_frame [where s = s and t = "trace s"] by simp
  let ?r = "clean_loop (before @ after) s"
  have c1: "clean (s\<lparr>all_out_messages := before @ m # after\<rparr>) =
      (case fst ?r of
         Some e \<Rightarrow> Some (Some e, (snd ?r)\<lparr>all_out_messages := before @ m # after\<rparr>)
       | None \<Rightarrow> clean ((snd ?r)\<lparr>all_out_messages := []\<rparr>))"
    by (cases "fst ?r")
       (simp_all add: clean_def frame skip clean_loop.simps(1))
  have c2: "clean (s\<lparr>all_out_messages := before @ after\<rparr>) =
      (case fst ?r of
         Some e \<Rightarrow> Some (Some e, (snd ?r)\<lparr>all_out_messages := before @ after\<rparr>)
       | None \<Rightarrow> clean ((snd ?r)\<lparr>all_out_messages := []\<rparr>))"
    by (cases "fst ?r")
       (simp_all add: clean_def frame clean_loop.simps(1))
  show ?thesis
    using assms
    by (cases "fst ?r") (simp_all add: skip c1 c2)
qed

theorem clean_skips_entry_without_output_witness:
  "msg_r5 ''status'' = Some ''finished'' \<and> msg_r5 ''output'' = None
   \<and> clean_loop [msg_r5] (GenericExecutor_init 600) = (None, GenericExecutor_init 600)
   \<and> clean_loop [msg_r1, msg_r5, msg_r2] (GenericExecutor_init 600) =
       (None,
        (GenericExecutor_init 600)
          \<lparr>trace := [Log INFO ''Removing es premerge file: %s'' [S ''/tmp/r1.out'']]\<rparr>)
   \<and> map_option (trace \<circ> snd)
         (clean ((GenericExecutor_init 600)\<lparr>all_out_messages := [msg_r1, msg_r5, msg_r2]\<rparr>)) =
       Some [Log INFO ''Removing es premerge file: %s'' [S ''/tmp/r1.out''], StopCommunicator]"
proof -
  have h: "msg_r5 ''status'' = Some ''finished''" "''finished'' \<noteq> ''failed''"
    "''finished'' \<noteq> ''fatal''" "msg_r5 ''output'' = None"
    by (simp_all add: msg_r5_def)
  have l: "clean_loop [msg_r1, msg_r2] (GenericExecutor_init 600) =
       (None,
        (GenericExecutor_init 600)
          \<lparr>trace := [Log INFO ''Removing es premerge file: %s'' [S ''/tmp/r1.out'']]\<rparr>)"
    by (simp add: msg_r1_fields msg_r2_fields log_def emit_def GenericExecutor_init_def)
  have c: "map_option (trace \<circ> snd)
         (clean ((GenericExecutor_init 600)\<lparr>all_out_messages := [msg_r1, msg_r2]\<rparr>)) =
       Some [Log INFO ''Removing es premerge file: %s'' [S ''/tmp/r1.out''], StopCommunicator]"
    by (simp add: clean_def msg_r1_fields msg_r2_fields log_def emit_def
          GenericExecutor_init_def)
  show ?thesis
    using clean_skips_entry_without_output [OF h, of "GenericExecutor_init 600" "[msg_r1]" "[msg_r2]"]
      h(1,4) l c
    by simp
qed

text \<open>
  C6, as the code has it.  \<^verbatim>\<open>clean\<close> walks the audit log once and, for each entry that
  is neither failed nor fatal and has an output path, writes the log line
  \<^verbatim>\<open>Removing es premerge file\<close>; the call of \<^verbatim>\<open>os.remove\<close> is commented out, so no
  artifact is removed.  Failed and fatal entries produce nothing.  When every entry has a
  status and the worker, if any, exits, \<^verbatim>\<open>clean\<close> returns normally; its effects are those
  log lines, the stop request to the worker and the stop of the communicator.
\<close>

theorem clean_logs_and_removes_nothing:
  assumes "\<forall>m\<in>set (all_out_messages s). m ''status'' \<noteq> None"
      and "proc s \<longrightarrow> alive_for (the_esprocess s) \<noteq> None"
  shows "\<exists>s'. clean s = Some (None, s')
     \<and> trace s' = trace s @ concat (map removal_notice (all_out_messages s))
                   @ (if proc s then [ProcStop] else []) @ [StopCommunicator]
     \<and> removals (trace s') = removals (trace s)"
  by (simp add: clean_returns [OF assms] removals_append removals_removal_notice)

theorem clean_logs_and_removes_nothing_witness:
  "all_out_messages queued_r1 = [msg_r1] \<and> msg_r1 ''status'' = Some ''finished''
   \<and> proc queued_r1 = False
   \<and> map_option (trace \<circ> snd) (clean queued_r1) =
       Some [Log INFO ''Handling out message: %s'' [M msg_r1],
             Log INFO ''Removing es premerge file: %s'' [S ''/tmp/r1.out''],
             StopCommunicator]
   \<and> map_option (removals \<circ> trace \<circ> snd) (clean queued_r1) = Some []"
proof -
  have a: "all_out_messages queued_r1 = [msg_r1]" "proc queued_r1 = False"
    "trace queued_r1 = [Log INFO ''Handling out message: %s'' [M msg_r1]]"
    by (simp_all add: queued_r1_eq GenericExecutor_init_def)
  have h1: "\<forall>m\<in>set (all_out_messages queued_r1). m ''status'' \<noteq> None"
    by (simp add: a msg_r1_fields)
  have h2: "proc queued_r1 \<longrightarrow> alive_for (the_esprocess queued_r1) \<noteq> None"
    by (simp add: a)
  have n: "removal_notice msg_r1 = [Log INFO ''Removing es premerge file: %s'' [S ''/tmp/r1.out'']]"
    by (simp add: removal_notice_def msg_r1_fields)
  from clean_logs_and_removes_nothing [OF h1 h2] obtain s' where
    "clean queued_r1 = Some (None, s')"
    "trace s' = trace queued_r1 @ concat (map removal_notice (all_out_messages queued_r1))
                   @ (if proc queued_r1 then [ProcStop] else []) @ [StopCommunicator]"
    "removals (trace s') = removals (trace queued_r1)"
    by blast
  then show ?thesis
    by (simp add: a n msg_r1_fields)
qed

text \<open>
  C6, as the specification states it, does not hold: after the hook has received the finished message
  \<open>msg_r1\<close> with output \<^verbatim>\<open>/tmp/r1.out\<close>, \<^verbatim>\<open>clean\<close> returns normally having logged and
  stopped the communicator; \<^verbatim>\<open>os.remove\<close> was called on no path.
\<close>

theorem clean_does_not_remove_r1:
  "map_option (trace \<circ> snd) (clean queued_r1) =
     Some [Log INFO ''Handling out message: %s'' [M msg_r1],
           Log INFO ''Removing es premerge file: %s'' [S ''/tmp/r1.out''],
           StopCommunicator]
   \<and> map_option (removals \<circ> trace \<circ> snd) (clean queued_r1) = Some []"
  by (simp add: queued_r1_eq clean_def msg_r1_fields log_def emit_def GenericExecutor_init_def)

text \<open>
  C7.  When a call of \<^verbatim>\<open>clean\<close> has returned normally, the pending queue and the audit
  log are empty and the last-flush timestamp is unset, and a second call right after it
  returns normally too: it changes nothing but the trace, to which it adds the stop
  request to the worker (when there is one) and the stop of the communicator, so it
  writes no removal line and removes nothing.
\<close>

theorem clean_twice:
  assumes "clean s = Some (None, s1)"
  shows "queued_out_messages s1 = [] \<and> all_out_messages s1 = []
     \<and> last_stageout_time s1 = None
     \<and> clean s1 =
         Some (None,
               s1\<lparr>trace := trace s1 @ (if proc s1 then [ProcStop] else [])
                            @ [StopCommunicator]\<rparr>)"
proof -
  note f = clean_Some_None [OF assms]
  have wf: "\<forall>m\<in>set (all_out_messages s1). m ''status'' \<noteq> None" using f by simp
  have mortal: "proc s1 \<longrightarrow> alive_for (the_esprocess s1) \<noteq> None" using f by simp
  have same: "s1\<lparr>queued_out_messages := [], last_stageout_time := None, all_out_messages := [],
         the_esprocess :=
           (if proc s1 then (the_esprocess s1)\<lparr>alive_for := Some 0\<rparr> else the_esprocess s1),
         trace := trace s1 @ concat (map removal_notice (all_out_messages s1))
                  @ (if proc s1 then [ProcStop] else []) @ [StopCommunicator]\<rparr>
     = s1\<lparr>trace := trace s1 @ (if proc s1 then [ProcStop] else []) @ [StopCommunicator]\<rparr>"
    using f by (cases "proc s1") simp_all
  show ?thesis
    using f clean_returns [OF wf mortal] same by simp
qed

theorem clean_twice_witness:
  "clean scenario_end =
     Some (None, scenario_end\<lparr>trace := trace scenario_end @ [ProcStop, StopCommunicator]\<rparr>)
   \<and> proc scenario_end = True
   \<and> clean (scenario_end\<lparr>trace := trace scenario_end @ [ProcStop, StopCommunicator]\<rparr>) =
     Some (None,
           scenario_end\<lparr>trace := trace scenario_end @
              [ProcStop, StopCommunicator, ProcStop, StopCommunicator]\<rparr>)
   \<and> clean queued_r1 =
     Some (None,
           (GenericExecutor_init 600)
             \<lparr>all_out_messages := [],
              trace := [Log INFO ''Handling out message: %s'' [M msg_r1],
                        Log INFO ''Removing es premerge file: %s'' [S ''/tmp/r1.out''],
                        StopCommunicator]\<rparr>)
   \<and> clean ((GenericExecutor_init 600)
             \<lparr>all_out_messages := [],
              trace := [Log INFO ''Handling out message: %s'' [M msg_r1],
                        Log INFO ''Removing es premerge file: %s'' [S ''/tmp/r1.out''],
                        StopCommunicator]\<rparr>) =
     Some (None,
           (GenericExecutor_init 600)
             \<lparr>all_out_messages := [],
              trace := [Log INFO ''Handling out message: %s'' [M msg_r1],
                        Log INFO ''Removing es premerge file: %s'' [S ''/tmp/r1.out''],
                        StopCommunicator, StopCommunicator]\<rparr>)"
proof -
  let ?s1 = "(GenericExecutor_init 600)
             \<lparr>all_out_messages := [],
              trace := [Log INFO ''Handling out message: %s'' [M msg_r1],
                        Log INFO ''Removing es premerge file: %s'' [S ''/tmp/r1.out''],
                        StopCommunicator]\<rparr>"
  let ?e1 = "scenario_end\<lparr>trace := trace scenario_end @ [ProcStop, StopCommunicator]\<rparr>"
  have h: "clean queued_r1 = Some (None, ?s1)"
    by (simp add: queued_r1_eq clean_def msg_r1_fields log_def emit_def GenericExecutor_init_def)
  have wf: "\<forall>m\<in>set (all_out_messages scenario_end). m ''status'' \<noteq> None"
    by (simp add: scenario_end_def)
  have mortal: "proc scenario_end \<longrightarrow> alive_for (the_esprocess scenario_end) \<noteq> None"
    by (simp add: scenario_end_def)
  have p: "proc scenario_end = True" by (simp add: scenario_end_def)
  have g: "clean scenario_end = Some (None, ?e1)"
    unfolding clean_returns [OF wf mortal] by (simp add: scenario_end_def)
  have g2: "clean ?e1 =
     Some (None,
           scenario_end\<lparr>trace := trace scenario_end @
              [ProcStop, StopCommunicator, ProcStop, StopCommunicator]\<rparr>)"
    using clean_twice [OF g] by (simp add: p)
  have h2: "clean ?s1 =
     Some (None,
           (GenericExecutor_init 600)
             \<lparr>all_out_messages := [],
              trace := [Log INFO ''Handling out message: %s'' [M msg_r1],
                        Log INFO ''Removing es premerge file: %s'' [S ''/tmp/r1.out''],
                        StopCommunicator, StopCommunicator]\<rparr>)"
    using clean_twice [OF h] by (simp add: GenericExecutor_init_def)
  show ?thesis
    using g p g2 h h2 by (intro conjI)
qed

section \<open>The control loop\<close>






end
